theory Spec2Isabelle
  imports Main "HOL-Library.Word" "HOL-Library.Product_Lexorder"
begin

section \<open>The value types of \<^verbatim>\<open>src/cuda/api/types.h\<close>\<close>

subsection \<open>Scalar types\<close>

text \<open>
  \<^verbatim>\<open>using grid_dimension_t = unsigned;\<close> and the fields of \<^verbatim>\<open>dim3\<close> and
  \<^verbatim>\<open>compute_capability_t\<close> are C++ \<^verbatim>\<open>unsigned\<close>: 32 bits on every platform the
  CUDA toolchain targets, with wrap-around arithmetic.
  \<^verbatim>\<open>using shared_memory_size_t = unsigned short;\<close> is 16 bits and
  \<^verbatim>\<open>unsigned char\<close> is 8 bits.
\<close>

type_synonym unsigned = "32 word"
type_synonym unsigned_short = "16 word"
type_synonym unsigned_char = "8 word"
type_synonym shared_memory_size_t = unsigned_short

text \<open>
  Modelled from the spec: \<^verbatim>\<open>size_t\<close> comes from the platform headers, which are
  not part of the repository. The specification fixes it as ``a 64-bit unsigned
  quantity'', which is what the 64-bit hosts of the CUDA toolchain provide.
\<close>

type_synonym size_t = "64 word"

subsection \<open>Dimensions\<close>

text \<open>
  Modelled from the spec: \<^verbatim>\<open>dim3\<close> is declared in the driver's
  \<^verbatim>\<open>builtin_types.h\<close>, which is not part of the repository. The source describes
  it as ``3 uints in a struct'' and the specification as a ``3-tuple of unsigned
  integers'' with components \<^verbatim>\<open>x\<close>, \<^verbatim>\<open>y\<close>, \<^verbatim>\<open>z\<close>.
\<close>

record dim3 =
  x :: unsigned
  y :: unsigned
  z :: unsigned

text \<open>
  \<^verbatim>\<open>struct dimensions_t : public dim3\<close> adds member functions and no data, so a
  \<^verbatim>\<open>dimensions_t\<close> value is a \<^verbatim>\<open>dim3\<close> value.
\<close>

type_synonym dimensions_t = dim3
type_synonym grid_dimensions_t = dimensions_t
type_synonym grid_block_dimensions_t = dimensions_t

text \<open>
  \<^verbatim>\<open>inline size_t empty() const { return (x == 0) or (y == 0) or (z == 0); }\<close>
  The \<^verbatim>\<open>bool\<close> is converted to the declared return type \<^verbatim>\<open>size_t\<close>: 1 for true,
  0 for false.
\<close>

definition empty :: "dimensions_t \<Rightarrow> size_t" where
  "empty d = of_bool (x d = 0 \<or> y d = 0 \<or> z d = 0)"

text \<open>
  \<^verbatim>\<open>inline size_t volume() const { return (size_t) x * y * z; }\<close>
  A cast binds tighter than \<^verbatim>\<open>*\<close>, and \<^verbatim>\<open>*\<close> associates to the left, so the
  expression is \<^verbatim>\<open>(((size_t) x) * y) * z\<close>: \<^verbatim>\<open>x\<close> is widened first, and the usual
  arithmetic conversions then widen \<^verbatim>\<open>y\<close> and \<^verbatim>\<open>z\<close> to \<^verbatim>\<open>size_t\<close> before each
  multiplication. Both multiplications are carried out in \<^verbatim>\<open>size_t\<close>.
\<close>

definition volume :: "dimensions_t \<Rightarrow> size_t" where
  "volume d = ((ucast (x d) :: size_t) * ucast (y d)) * ucast (z d)"

text \<open>
  For comparison with \<^verbatim>\<open>volume\<close>, the computation that the specification
  attributes to it, in the specification's words: ``keeps 32-bit multiplicands,
  widening only the result type''. This definition follows the specification,
  not the source.
\<close>

definition volume_32bit_product :: "dimensions_t \<Rightarrow> size_t" where
  "volume_32bit_product d = ucast (x d * y d * z d)"

text \<open>
  \<^verbatim>\<open>inline unsigned char dimensionality() const { return (z > 1) + (y > 1) + (x > 1); }\<close>
  Each comparison is a \<^verbatim>\<open>bool\<close> promoted to \<^verbatim>\<open>int\<close>; the \<^verbatim>\<open>int\<close> sum is
  converted to \<^verbatim>\<open>unsigned char\<close>.
\<close>

definition dimensionality :: "dimensions_t \<Rightarrow> unsigned_char" where
  "dimensionality d =
     word_of_int (of_bool (1 < z d) + of_bool (1 < y d) + of_bool (1 < x d))"

text \<open>
  \<^verbatim>\<open>operator==(const dim3& lhs, const dim3& rhs)\<close> and
  \<^verbatim>\<open>operator==(const dimensions_t& lhs, const dimensions_t& rhs)\<close>; the second
  casts both sides to \<^verbatim>\<open>dim3\<close> and calls the first.
\<close>

definition dim3_eq :: "dim3 \<Rightarrow> dim3 \<Rightarrow> bool" where
  "dim3_eq lhs rhs \<longleftrightarrow> x lhs = x rhs \<and> y lhs = y rhs \<and> z lhs = z rhs"

definition dimensions_eq :: "dimensions_t \<Rightarrow> dimensions_t \<Rightarrow> bool" where
  "dimensions_eq lhs rhs \<longleftrightarrow> dim3_eq lhs rhs"

subsection \<open>Compute capability\<close>

record compute_capability_t =
  major :: unsigned
  minor :: unsigned

text \<open>\<^verbatim>\<open>unsigned as_combined_number() const { return major * 10 + minor; }\<close>\<close>

definition as_combined_number :: "compute_capability_t \<Rightarrow> unsigned" where
  "as_combined_number cc = major cc * 10 + minor cc"

text \<open>
  \<^verbatim>\<open>static const compute_capability_t from_combined_number(unsigned combined)
  { return { combined / 10, combined % 10 }; }\<close>
\<close>

definition from_combined_number :: "unsigned \<Rightarrow> compute_capability_t" where
  "from_combined_number combined = \<lparr>major = combined div 10, minor = combined mod 10\<rparr>"

text \<open>
  \<^verbatim>\<open>bool is_valid() const
  { return (major > 0) and (major < 9999) and (minor > 0) and (minor < 9999); }\<close>
\<close>

definition is_valid :: "compute_capability_t \<Rightarrow> bool" where
  "is_valid cc \<longleftrightarrow> 0 < major cc \<and> major cc < 9999 \<and> 0 < minor cc \<and> minor cc < 9999"

text \<open>The six comparison operators on \<^verbatim>\<open>compute_capability_t\<close>, in source order.\<close>

definition compute_capability_eq :: "compute_capability_t \<Rightarrow> compute_capability_t \<Rightarrow> bool" where
  "compute_capability_eq lhs rhs \<longleftrightarrow> major lhs = major rhs \<and> minor lhs = minor rhs"

definition compute_capability_ne :: "compute_capability_t \<Rightarrow> compute_capability_t \<Rightarrow> bool" where
  "compute_capability_ne lhs rhs \<longleftrightarrow> major lhs \<noteq> major rhs \<or> minor lhs \<noteq> minor rhs"

definition compute_capability_lt :: "compute_capability_t \<Rightarrow> compute_capability_t \<Rightarrow> bool" where
  "compute_capability_lt lhs rhs \<longleftrightarrow>
     major lhs < major rhs \<or> (major lhs = major rhs \<and> minor lhs < minor rhs)"

definition compute_capability_le :: "compute_capability_t \<Rightarrow> compute_capability_t \<Rightarrow> bool" where
  "compute_capability_le lhs rhs \<longleftrightarrow>
     major lhs < major rhs \<or> (major lhs = major rhs \<and> minor lhs \<le> minor rhs)"

definition compute_capability_gt :: "compute_capability_t \<Rightarrow> compute_capability_t \<Rightarrow> bool" where
  "compute_capability_gt lhs rhs \<longleftrightarrow>
     major lhs > major rhs \<or> (major lhs = major rhs \<and> minor lhs > minor rhs)"

definition compute_capability_ge :: "compute_capability_t \<Rightarrow> compute_capability_t \<Rightarrow> bool" where
  "compute_capability_ge lhs rhs \<longleftrightarrow>
     major lhs > major rhs \<or> (major lhs = major rhs \<and> minor lhs \<ge> minor rhs)"

text \<open>
  \<^verbatim>\<open>make_compute_capability(unsigned major, unsigned minor)\<close> and its overload
  \<^verbatim>\<open>make_compute_capability(unsigned combined)\<close>.
\<close>

definition make_compute_capability :: "unsigned \<Rightarrow> unsigned \<Rightarrow> compute_capability_t" where
  "make_compute_capability mj mn = \<lparr>major = mj, minor = mn\<rparr>"

definition make_compute_capability_combined :: "unsigned \<Rightarrow> compute_capability_t" where
  "make_compute_capability_combined combined =
     \<lparr>major = combined div 10, minor = combined mod 10\<rparr>"

subsection \<open>Launch configuration\<close>

record launch_configuration_t =
  grid_dimensions :: grid_dimensions_t
  block_dimensions :: grid_block_dimensions_t
  dynamic_shared_memory_size :: shared_memory_size_t

text \<open>
  \<^verbatim>\<open>make_launch_config(grid_dimensions, block_dimensions, dynamic_shared_memory_size = 0)\<close>;
  the second definition is the call that leaves the defaulted argument out.
\<close>

definition make_launch_config ::
  "grid_dimensions_t \<Rightarrow> grid_block_dimensions_t \<Rightarrow> shared_memory_size_t \<Rightarrow> launch_configuration_t"
where
  "make_launch_config g b s =
     \<lparr>grid_dimensions = g, block_dimensions = b, dynamic_shared_memory_size = s\<rparr>"

definition make_launch_config_default ::
  "grid_dimensions_t \<Rightarrow> grid_block_dimensions_t \<Rightarrow> launch_configuration_t"
where
  "make_launch_config_default g b = make_launch_config g b 0"

text \<open>\<^verbatim>\<open>operator==(const launch_configuration_t lhs, const launch_configuration_t& rhs)\<close>\<close>

definition launch_configuration_eq ::
  "launch_configuration_t \<Rightarrow> launch_configuration_t \<Rightarrow> bool"
where
  "launch_configuration_eq lhs rhs \<longleftrightarrow>
     dimensions_eq (grid_dimensions lhs) (grid_dimensions rhs) \<and>
     dimensions_eq (block_dimensions lhs) (block_dimensions rhs) \<and>
     dynamic_shared_memory_size lhs = dynamic_shared_memory_size rhs"

subsection \<open>Enumerations with aliases\<close>

text \<open>
  Modelled from the spec: the four constants \<^verbatim>\<open>cudaFuncCachePreferNone\<close>,
  \<^verbatim>\<open>cudaFuncCachePreferEqual\<close>, \<^verbatim>\<open>cudaFuncCachePreferShared\<close> and
  \<^verbatim>\<open>cudaFuncCachePreferL1\<close> are declared in the driver's \<^verbatim>\<open>driver_types.h\<close>,
  which is not part of the repository; the specification calls them ``external
  driver constants'' supplied as a table from name to integer. They are taken as
  a parameter: a record of four integers.
\<close>

record driver_constants =
  cudaFuncCachePreferNone :: int
  cudaFuncCachePreferEqual :: int
  cudaFuncCachePreferShared :: int
  cudaFuncCachePreferL1 :: int

text \<open>
  The enumerators of \<^verbatim>\<open>enum class multiprocessor_cache_preference_t\<close>, in
  declaration order: four canonical names, then four aliases. The alias
  \<^verbatim>\<open>equal\<close> carries a suffix, since \<open>equal\<close> is a constant of HOL.
\<close>

datatype multiprocessor_cache_preference_t =
  no_preference
  | equal_l1_and_shared_memory
  | prefer_shared_memory_over_l1
  | prefer_l1_over_shared_memory
  | none
  | equal_alias
  | prefer_shared
  | prefer_l1

text \<open>
  The underlying value of each enumerator, as its initialiser in the enum
  declaration gives it: a driver constant for the canonical names, an earlier
  enumerator for the aliases.
\<close>

text \<open>An alias is one look-up away from a canonical enumerator.\<close>

fun cache_preference_is_alias :: "multiprocessor_cache_preference_t \<Rightarrow> bool" where
  "cache_preference_is_alias none = True"
| "cache_preference_is_alias equal_alias = True"
| "cache_preference_is_alias prefer_shared = True"
| "cache_preference_is_alias prefer_l1 = True"
| "cache_preference_is_alias _ = False"

function cache_preference_value :: "driver_constants \<Rightarrow> multiprocessor_cache_preference_t \<Rightarrow> int" where
  "cache_preference_value dc no_preference = cudaFuncCachePreferNone dc"
| "cache_preference_value dc equal_l1_and_shared_memory = cudaFuncCachePreferEqual dc"
| "cache_preference_value dc prefer_shared_memory_over_l1 = cudaFuncCachePreferShared dc"
| "cache_preference_value dc prefer_l1_over_shared_memory = cudaFuncCachePreferL1 dc"
| "cache_preference_value dc none = cache_preference_value dc no_preference"
| "cache_preference_value dc equal_alias = cache_preference_value dc equal_l1_and_shared_memory"
| "cache_preference_value dc prefer_shared = cache_preference_value dc prefer_shared_memory_over_l1"
| "cache_preference_value dc prefer_l1 = cache_preference_value dc prefer_l1_over_shared_memory"
  by pat_completeness auto

termination cache_preference_value
  by (relation "measure (\<lambda>(dc, e). if cache_preference_is_alias e then 1 else 0)") auto

text \<open>
  \<^verbatim>\<open>enum synchronicity_t : bool { asynchronous = false, synchronous = true,
  sync = synchronous, async = asynchronous, };\<close>
\<close>

datatype synchronicity_t = asynchronous | synchronous | sync | async

function synchronicity_value :: "synchronicity_t \<Rightarrow> bool" where
  "synchronicity_value asynchronous = False"
| "synchronicity_value synchronous = True"
| "synchronicity_value sync = synchronicity_value synchronous"
| "synchronicity_value async = synchronicity_value asynchronous"
  by pat_completeness auto

termination synchronicity_value
  by (relation "measure (\<lambda>e. if e = sync \<or> e = async then 1 else 0)") auto

section \<open>Helper facts\<close>

lemma unat_unsigned_bound: "unat (w :: unsigned) < 4294967296"
  using unsigned_less [of w, where ?'a = nat] by simp

lemma unat_ucast_unsigned_size_t: "unat (ucast (w :: unsigned) :: size_t) = unat w"
proof -
  have "unat w < 2 ^ 64"
    using unat_unsigned_bound [of w] by simp
  then show ?thesis
    by (simp add: unsigned_ucast_eq take_bit_nat_eq_self)
qed

lemma unat_volume:
  "unat (volume d) = (unat (x d) * unat (y d) * unat (z d)) mod 2 ^ 64"
  by (simp add: volume_def unat_word_ariths unat_ucast_unsigned_size_t mod_mult_left_eq)

lemma unat_volume_32bit_product:
  "unat (volume_32bit_product d) = (unat (x d) * unat (y d) * unat (z d)) mod 2 ^ 32"
  by (simp add: volume_32bit_product_def unat_word_ariths unat_ucast_unsigned_size_t mod_mult_left_eq)

lemma unat_as_combined_number:
  "unat (as_combined_number cc) = (unat (major cc) * 10 + unat (minor cc)) mod 2 ^ 32"
  by (simp add: as_combined_number_def unat_word_ariths mod_add_left_eq)

lemma roundtrip_fields:
  "from_combined_number (as_combined_number cc) = cc \<longleftrightarrow>
     as_combined_number cc div 10 = major cc \<and> as_combined_number cc mod 10 = minor cc"
  by (cases cc) (simp add: from_combined_number_def)

lemma roundtrip_no_wrap:
  assumes mn: "unat (minor cc) < 10"
    and nw: "unat (major cc) * 10 + unat (minor cc) < 2 ^ 32"
  shows "from_combined_number (as_combined_number cc) = cc"
proof -
  let ?c = "as_combined_number cc"
  have c: "unat ?c = unat (major cc) * 10 + unat (minor cc)"
    using nw by (simp add: unat_as_combined_number)
  have "unat (?c div 10) = unat (major cc)"
    using mn by (simp add: unat_div_distrib c)
  moreover have "unat (?c mod 10) = unat (minor cc)"
    using mn by (simp add: unat_mod_distrib c)
  ultimately have "?c div 10 = major cc" and "?c mod 10 = minor cc"
    by (simp_all only: word_unat_eq_iff)
  then show ?thesis
    by (simp add: roundtrip_fields)
qed

lemma roundtrip_needs_digit:
  assumes "from_combined_number (as_combined_number cc) = cc"
  shows "unat (minor cc) < 10 \<and> unat (major cc) * 10 + unat (minor cc) < 2 ^ 32"
proof -
  let ?c = "as_combined_number cc"
  from assms have mj: "?c div 10 = major cc" and mn: "?c mod 10 = minor cc"
    by (simp_all add: roundtrip_fields)
  have "unat (?c mod 10) < 10"
    by (simp add: unat_mod_distrib)
  then have d: "unat (minor cc) < 10"
    by (simp add: mn)
  have "unat (major cc) * 10 + unat (minor cc) = unat (?c div 10) * 10 + unat (?c mod 10)"
    by (simp add: mj mn)
  also have "\<dots> = unat ?c div 10 * 10 + unat ?c mod 10"
    by (simp add: unat_div_distrib unat_mod_distrib)
  also have "\<dots> = unat ?c"
    by (rule div_mult_mod_eq)
  finally have "unat (major cc) * 10 + unat (minor cc) < 2 ^ 32"
    using unat_unsigned_bound [of ?c] by simp
  with d show ?thesis ..
qed

lemma compute_capability_eq_iff: "compute_capability_eq a b \<longleftrightarrow> a = b"
  by (cases a, cases b) (simp add: compute_capability_eq_def)

lemma compute_capability_lt_lex:
  "compute_capability_lt a b \<longleftrightarrow> (major a, minor a) < (major b, minor b)"
  by (auto simp add: compute_capability_lt_def less_prod_def)

lemma compute_capability_lt_trans:
  "compute_capability_lt a b \<Longrightarrow> compute_capability_lt b c \<Longrightarrow> compute_capability_lt a c"
  unfolding compute_capability_lt_lex by (rule less_trans)

section \<open>Properties\<close>

text \<open>
  C1, as stated, fails: the capability (429496730, 0) has a minor component
  below 10, yet \<^verbatim>\<open>major * 10\<close> wraps around in 32-bit arithmetic to 4, and
  \<^verbatim>\<open>from_combined_number\<close> returns (0, 4).
\<close>

theorem C1_roundtrip_counterexample:
  "unat (minor \<lparr>major = 429496730, minor = 0\<rparr>) < 10
   \<and> as_combined_number \<lparr>major = 429496730, minor = 0\<rparr> = 4
   \<and> from_combined_number (as_combined_number \<lparr>major = 429496730, minor = 0\<rparr>)
       = \<lparr>major = 0, minor = 4\<rparr>
   \<and> from_combined_number (as_combined_number \<lparr>major = 429496730, minor = 0\<rparr>)
       \<noteq> \<lparr>major = 429496730, minor = 0\<rparr>"
  by (simp add: as_combined_number_def from_combined_number_def)

text \<open>
  C1, amended. \<^verbatim>\<open>from_combined_number(as_combined_number(cc))\<close> equals \<open>cc\<close>
  field by field whenever \<open>cc.minor < 10\<close> and \<open>major * 10 + minor\<close> does not
  exceed the 32-bit range; these two conditions are also necessary. For
  \<open>minor \<ge> 10\<close> the round trip never reproduces \<open>cc\<close>.
\<close>

theorem C1_roundtrip_without_wrap:
  "(unat (minor cc) < 10 \<and> unat (major cc) * 10 + unat (minor cc) < 2 ^ 32
      \<longrightarrow> from_combined_number (as_combined_number cc) = cc)
   \<and> (from_combined_number (as_combined_number cc) = cc
      \<longrightarrow> unat (minor cc) < 10 \<and> unat (major cc) * 10 + unat (minor cc) < 2 ^ 32)
   \<and> (10 \<le> unat (minor cc) \<longrightarrow> from_combined_number (as_combined_number cc) \<noteq> cc)"
  using roundtrip_no_wrap [of cc] roundtrip_needs_digit [of cc] by fastforce

text \<open>
  The amended C1 at (7, 5), which maps to 75 and back to (7, 5), and at
  (7, 15), which maps to 85 and back to (8, 5).
\<close>

theorem C1_roundtrip_without_wrap_witness:
  "unat (minor \<lparr>major = 7, minor = 5\<rparr>) < 10
   \<and> unat (major \<lparr>major = 7, minor = 5\<rparr>) * 10 + unat (minor \<lparr>major = 7, minor = 5\<rparr>) < 2 ^ 32
   \<and> as_combined_number \<lparr>major = 7, minor = 5\<rparr> = 75
   \<and> from_combined_number (as_combined_number \<lparr>major = 7, minor = 5\<rparr>) = \<lparr>major = 7, minor = 5\<rparr>
   \<and> 10 \<le> unat (minor \<lparr>major = 7, minor = 15\<rparr>)
   \<and> as_combined_number \<lparr>major = 7, minor = 15\<rparr> = 85
   \<and> from_combined_number 85 = \<lparr>major = 8, minor = 5\<rparr>
   \<and> from_combined_number (as_combined_number \<lparr>major = 7, minor = 15\<rparr>) \<noteq> \<lparr>major = 7, minor = 15\<rparr>"
  using C1_roundtrip_without_wrap [of "\<lparr>major = 7, minor = 5\<rparr>"]
    C1_roundtrip_without_wrap [of "\<lparr>major = 7, minor = 15\<rparr>"]
  by (simp add: as_combined_number_def from_combined_number_def)

text \<open>
  C2. For every \<^verbatim>\<open>dimensions_t\<close> whose mathematical product \<open>x * y * z\<close> fits in
  the 64-bit unsigned result, \<^verbatim>\<open>volume()\<close> returns exactly that product; at
  \<open>x = y = z = 0xFFFF\<close> it returns 281462092005375.
\<close>

theorem C2_volume_exact:
  "(unat (x d) * unat (y d) * unat (z d) < 2 ^ 64 \<longrightarrow>
      unat (volume d) = unat (x d) * unat (y d) * unat (z d))
   \<and> volume \<lparr>x = 0xFFFF, y = 0xFFFF, z = 0xFFFF\<rparr> = 0xFFFF * 0xFFFF * 0xFFFF
   \<and> volume \<lparr>x = 0xFFFF, y = 0xFFFF, z = 0xFFFF\<rparr> = 281462092005375"
  by (simp add: unat_volume) (simp add: volume_def)

text \<open>C2 at the boundary value \<open>x = y = z = 0xFFFF\<close>.\<close>

theorem C2_volume_exact_witness:
  "unat (x \<lparr>x = 0xFFFF, y = 0xFFFF, z = 0xFFFF\<rparr>) * unat (y \<lparr>x = 0xFFFF, y = 0xFFFF, z = 0xFFFF\<rparr>)
     * unat (z \<lparr>x = 0xFFFF, y = 0xFFFF, z = 0xFFFF\<rparr>) < 2 ^ 64
   \<and> unat (volume \<lparr>x = 0xFFFF, y = 0xFFFF, z = 0xFFFF\<rparr>) = 281462092005375"
  using C2_volume_exact [of "\<lparr>x = 0xFFFF, y = 0xFFFF, z = 0xFFFF\<rparr>"] by simp

text \<open>
  C3, as stated, fails: at (65536, 65536, 1) the true product is \<open>2 ^ 32\<close>, a
  32-bit multiplication widened afterwards would give 0, and \<^verbatim>\<open>volume()\<close>
  returns the exact product 4294967296.
\<close>

theorem C3_volume_counterexample:
  "2 ^ 32 \<le> unat (x \<lparr>x = 0x10000, y = 0x10000, z = 1\<rparr>) * unat (y \<lparr>x = 0x10000, y = 0x10000, z = 1\<rparr>)
       * unat (z \<lparr>x = 0x10000, y = 0x10000, z = 1\<rparr>)
   \<and> volume \<lparr>x = 0x10000, y = 0x10000, z = 1\<rparr> = 4294967296
   \<and> volume_32bit_product \<lparr>x = 0x10000, y = 0x10000, z = 1\<rparr> = 0
   \<and> volume \<lparr>x = 0x10000, y = 0x10000, z = 1\<rparr> \<noteq> volume_32bit_product \<lparr>x = 0x10000, y = 0x10000, z = 1\<rparr>"
  by (simp add: volume_def volume_32bit_product_def)

text \<open>
  C3, amended. \<^verbatim>\<open>volume()\<close> widens \<open>x\<close> before the first multiplication, so
  both multiplications are 64-bit and the result is \<open>x * y * z\<close> modulo
  \<open>2 ^ 64\<close>. Whenever the true product is at least \<open>2 ^ 32\<close> and below
  \<open>2 ^ 64\<close>, \<^verbatim>\<open>volume()\<close> returns the exact product, which differs from the
  product modulo \<open>2 ^ 32\<close> and from the result of a 32-bit multiplication
  widened afterwards.
\<close>

theorem C3_volume_wraps_at_64_bits:
  "unat (volume d) = (unat (x d) * unat (y d) * unat (z d)) mod 2 ^ 64
   \<and> (2 ^ 32 \<le> unat (x d) * unat (y d) * unat (z d) \<and> unat (x d) * unat (y d) * unat (z d) < 2 ^ 64
        \<longrightarrow> unat (volume d) = unat (x d) * unat (y d) * unat (z d)
          \<and> unat (volume d) \<noteq> (unat (x d) * unat (y d) * unat (z d)) mod 2 ^ 32
          \<and> volume d \<noteq> volume_32bit_product d)"
proof -
  let ?p = "unat (x d) * unat (y d) * unat (z d)"
  have v: "unat (volume d) = ?p mod 2 ^ 64"
    by (rule unat_volume)
  have "unat (volume d) = ?p \<and> unat (volume d) \<noteq> ?p mod 2 ^ 32 \<and> volume d \<noteq> volume_32bit_product d"
    if lo: "2 ^ 32 \<le> ?p" and hi: "?p < 2 ^ 64"
  proof -
    have e: "unat (volume d) = ?p"
      using v hi by simp
    have m: "?p mod 2 ^ 32 < 2 ^ 32"
      by simp
    have n: "unat (volume d) \<noteq> ?p mod 2 ^ 32"
      using e lo m by linarith
    have "unat (volume d) \<noteq> unat (volume_32bit_product d)"
      using n by (simp add: unat_volume_32bit_product)
    then have "volume d \<noteq> volume_32bit_product d"
      by (rule contrapos_nn) simp
    with e n show ?thesis by blast
  qed
  with v show ?thesis by blast
qed

text \<open>The amended C3 at (65536, 65536, 1).\<close>

theorem C3_volume_wraps_at_64_bits_witness:
  "2 ^ 32 \<le> unat (x \<lparr>x = 0x10000, y = 0x10000, z = 1\<rparr>) * unat (y \<lparr>x = 0x10000, y = 0x10000, z = 1\<rparr>)
       * unat (z \<lparr>x = 0x10000, y = 0x10000, z = 1\<rparr>)
   \<and> unat (x \<lparr>x = 0x10000, y = 0x10000, z = 1\<rparr>) * unat (y \<lparr>x = 0x10000, y = 0x10000, z = 1\<rparr>)
       * unat (z \<lparr>x = 0x10000, y = 0x10000, z = 1\<rparr>) < 2 ^ 64
   \<and> unat (volume \<lparr>x = 0x10000, y = 0x10000, z = 1\<rparr>) = 4294967296
   \<and> volume \<lparr>x = 0x10000, y = 0x10000, z = 1\<rparr>
       \<noteq> volume_32bit_product \<lparr>x = 0x10000, y = 0x10000, z = 1\<rparr>"
  using C3_volume_wraps_at_64_bits [of "\<lparr>x = 0x10000, y = 0x10000, z = 1\<rparr>"] by simp

text \<open>
  C4. The comparison operators on \<^verbatim>\<open>compute_capability_t\<close> form a strict total
  order that is lexicographic on (major, minor): \<open><\<close>, \<open><=\<close>, \<open>>\<close> and \<open>>=\<close>
  are the lexicographic comparisons of the pairs, \<open>==\<close> and \<open>!=\<close> are field-wise,
  \<open><\<close> is irreflexive and transitive, exactly one of \<open><\<close>, \<open>==\<close>, \<open>>\<close> holds for
  every pair, and (7,0) < (7,5) < (8,0), (7,5) == (7,5), (8,0) > (7,9).
\<close>

theorem C4_compute_capability_order:
  "(compute_capability_lt a b \<longleftrightarrow> (major a, minor a) < (major b, minor b))
   \<and> (compute_capability_le a b \<longleftrightarrow> (major a, minor a) \<le> (major b, minor b))
   \<and> (compute_capability_gt a b \<longleftrightarrow> (major a, minor a) > (major b, minor b))
   \<and> (compute_capability_ge a b \<longleftrightarrow> (major a, minor a) \<ge> (major b, minor b))
   \<and> (compute_capability_eq a b \<longleftrightarrow> major a = major b \<and> minor a = minor b)
   \<and> (compute_capability_eq a b \<longleftrightarrow> a = b)
   \<and> (compute_capability_ne a b \<longleftrightarrow> \<not> compute_capability_eq a b)
   \<and> \<not> compute_capability_lt a a
   \<and> (compute_capability_lt a b \<longrightarrow> compute_capability_lt b c \<longrightarrow> compute_capability_lt a c)
   \<and> (compute_capability_lt a b \<or> compute_capability_eq a b \<or> compute_capability_gt a b)
   \<and> \<not> (compute_capability_lt a b \<and> compute_capability_eq a b)
   \<and> \<not> (compute_capability_lt a b \<and> compute_capability_gt a b)
   \<and> \<not> (compute_capability_eq a b \<and> compute_capability_gt a b)
   \<and> compute_capability_lt (make_compute_capability 7 0) (make_compute_capability 7 5)
   \<and> compute_capability_lt (make_compute_capability 7 5) (make_compute_capability 8 0)
   \<and> compute_capability_eq (make_compute_capability 7 5) (make_compute_capability 7 5)
   \<and> compute_capability_gt (make_compute_capability 8 0) (make_compute_capability 7 9)"
proof -
  have lex: "compute_capability_lt a b \<longleftrightarrow> (major a, minor a) < (major b, minor b)"
    by (rule compute_capability_lt_lex)
  have le: "compute_capability_le a b \<longleftrightarrow> (major a, minor a) \<le> (major b, minor b)"
    by (auto simp add: compute_capability_le_def less_eq_prod_def)
  have gt: "compute_capability_gt a b \<longleftrightarrow> (major a, minor a) > (major b, minor b)"
    by (auto simp add: compute_capability_gt_def less_prod_def)
  have ge: "compute_capability_ge a b \<longleftrightarrow> (major a, minor a) \<ge> (major b, minor b)"
    by (auto simp add: compute_capability_ge_def less_eq_prod_def)
  have eq: "compute_capability_eq a b \<longleftrightarrow> major a = major b \<and> minor a = minor b"
    by (simp add: compute_capability_eq_def)
  have eq': "compute_capability_eq a b \<longleftrightarrow> a = b"
    by (rule compute_capability_eq_iff)
  have ne: "compute_capability_ne a b \<longleftrightarrow> \<not> compute_capability_eq a b"
    by (simp add: compute_capability_ne_def compute_capability_eq_def)
  have irrefl: "\<not> compute_capability_lt a a"
    by (simp add: compute_capability_lt_def)
  have trans: "compute_capability_lt a b \<longrightarrow> compute_capability_lt b c \<longrightarrow> compute_capability_lt a c"
    using compute_capability_lt_trans by blast
  have tri: "compute_capability_lt a b \<or> compute_capability_eq a b \<or> compute_capability_gt a b"
    by (auto simp add: compute_capability_lt_def compute_capability_eq_def compute_capability_gt_def)
  have ex1: "\<not> (compute_capability_lt a b \<and> compute_capability_eq a b)"
    by (auto simp add: compute_capability_lt_def compute_capability_eq_def)
  have ex2: "\<not> (compute_capability_lt a b \<and> compute_capability_gt a b)"
    by (auto simp add: compute_capability_lt_def compute_capability_gt_def)
  have ex3: "\<not> (compute_capability_eq a b \<and> compute_capability_gt a b)"
    by (auto simp add: compute_capability_eq_def compute_capability_gt_def)
  have k1: "compute_capability_lt (make_compute_capability 7 0) (make_compute_capability 7 5)"
    by (simp add: compute_capability_lt_def make_compute_capability_def)
  have k2: "compute_capability_lt (make_compute_capability 7 5) (make_compute_capability 8 0)"
    by (simp add: compute_capability_lt_def make_compute_capability_def)
  have k3: "compute_capability_eq (make_compute_capability 7 5) (make_compute_capability 7 5)"
    by (simp add: compute_capability_eq_def)
  have k4: "compute_capability_gt (make_compute_capability 8 0) (make_compute_capability 7 9)"
    by (simp add: compute_capability_gt_def make_compute_capability_def)
  from lex le gt ge eq eq' ne irrefl trans tri ex1 ex2 ex3 k1 k2 k3 k4 show ?thesis
    by (intro conjI)
qed

text \<open>Transitivity of C4 along (7,0) < (7,5) < (8,0).\<close>

theorem C4_compute_capability_order_witness:
  "compute_capability_lt \<lparr>major = 7, minor = 0\<rparr> \<lparr>major = 7, minor = 5\<rparr>
   \<and> compute_capability_lt \<lparr>major = 7, minor = 5\<rparr> \<lparr>major = 8, minor = 0\<rparr>
   \<and> compute_capability_lt \<lparr>major = 7, minor = 0\<rparr> \<lparr>major = 8, minor = 0\<rparr>"
proof -
  have a: "compute_capability_lt \<lparr>major = 7, minor = 0\<rparr> \<lparr>major = 7, minor = 5\<rparr>"
    by (simp add: compute_capability_lt_def)
  have b: "compute_capability_lt \<lparr>major = 7, minor = 5\<rparr> \<lparr>major = 8, minor = 0\<rparr>"
    by (simp add: compute_capability_lt_def)
  from a b C4_compute_capability_order
    [of "\<lparr>major = 7, minor = 0\<rparr>" "\<lparr>major = 7, minor = 5\<rparr>" "\<lparr>major = 8, minor = 0\<rparr>"]
  show ?thesis by blast
qed

text \<open>
  C5. \<^verbatim>\<open>is_valid()\<close> is true if and only if both major and minor are strictly
  between 0 and 9999: true for all major and minor in [1, 9998], false whenever
  major is 0, minor is 0, or either component is at least 9999.
\<close>

theorem C5_is_valid:
  "(is_valid cc \<longleftrightarrow>
      0 < unat (major cc) \<and> unat (major cc) < 9999 \<and> 0 < unat (minor cc) \<and> unat (minor cc) < 9999)
   \<and> (1 \<le> unat (major cc) \<and> unat (major cc) \<le> 9998
        \<and> 1 \<le> unat (minor cc) \<and> unat (minor cc) \<le> 9998 \<longrightarrow> is_valid cc)
   \<and> (major cc = 0 \<or> minor cc = 0 \<or> 9999 \<le> unat (major cc) \<or> 9999 \<le> unat (minor cc)
        \<longrightarrow> \<not> is_valid cc)"
proof -
  have "is_valid cc \<longleftrightarrow>
      0 < unat (major cc) \<and> unat (major cc) < 9999 \<and> 0 < unat (minor cc) \<and> unat (minor cc) < 9999"
    by (simp add: is_valid_def word_less_nat_alt)
  then show ?thesis
    by (auto simp add: unat_eq_0)
qed

text \<open>C5 at the corners of the valid range and just outside it.\<close>

theorem C5_is_valid_witness:
  "is_valid \<lparr>major = 1, minor = 1\<rparr> \<and> is_valid \<lparr>major = 9998, minor = 9998\<rparr>
   \<and> \<not> is_valid \<lparr>major = 0, minor = 5\<rparr> \<and> \<not> is_valid \<lparr>major = 8, minor = 0\<rparr>
   \<and> \<not> is_valid \<lparr>major = 9999, minor = 5\<rparr> \<and> \<not> is_valid \<lparr>major = 5, minor = 9999\<rparr>"
  using C5_is_valid [of "\<lparr>major = 1, minor = 1\<rparr>"] C5_is_valid [of "\<lparr>major = 9998, minor = 9998\<rparr>"]
    C5_is_valid [of "\<lparr>major = 0, minor = 5\<rparr>"] C5_is_valid [of "\<lparr>major = 8, minor = 0\<rparr>"]
    C5_is_valid [of "\<lparr>major = 9999, minor = 5\<rparr>"] C5_is_valid [of "\<lparr>major = 5, minor = 9999\<rparr>"]
  by simp

text \<open>
  C6. \<^verbatim>\<open>empty()\<close> returns true (the value 1) if and only if \<open>x = 0\<close> or
  \<open>y = 0\<close> or \<open>z = 0\<close>; it returns false (the value 0) whenever all three
  components are at least 1.
\<close>

theorem C6_empty:
  "(empty d \<noteq> 0 \<longleftrightarrow> x d = 0 \<or> y d = 0 \<or> z d = 0)
   \<and> (empty d = 1 \<longleftrightarrow> x d = 0 \<or> y d = 0 \<or> z d = 0)
   \<and> (1 \<le> x d \<and> 1 \<le> y d \<and> 1 \<le> z d \<longrightarrow> empty d = 0)"
  by (auto simp add: empty_def)

text \<open>C6 at (1, 1, 1) and (4, 2, 7).\<close>

theorem C6_empty_witness:
  "empty \<lparr>x = 1, y = 1, z = 1\<rparr> = 0 \<and> empty \<lparr>x = 4, y = 2, z = 7\<rparr> = 0"
  using C6_empty [of "\<lparr>x = 1, y = 1, z = 1\<rparr>"] C6_empty [of "\<lparr>x = 4, y = 2, z = 7\<rparr>"]
  by simp

text \<open>
  C7. \<^verbatim>\<open>dimensionality()\<close> returns the number of axes with length greater than
  1, a value between 0 and 3: 0 for (1,1,1), 1 for (5,1,1), 2 for (5,5,1) and 3
  for (5,5,5).
\<close>

theorem C7_dimensionality:
  "unat (dimensionality d) = length (filter (\<lambda>v. 1 < v) [x d, y d, z d])
   \<and> unat (dimensionality d) \<le> 3
   \<and> dimensionality \<lparr>x = 1, y = 1, z = 1\<rparr> = 0
   \<and> dimensionality \<lparr>x = 5, y = 1, z = 1\<rparr> = 1
   \<and> dimensionality \<lparr>x = 5, y = 5, z = 1\<rparr> = 2
   \<and> dimensionality \<lparr>x = 5, y = 5, z = 5\<rparr> = 3"
  by (simp add: dimensionality_def)

text \<open>
  C8. \<^verbatim>\<open>operator==\<close> on \<^verbatim>\<open>launch_configuration_t\<close> is field-wise: two
  configurations compare equal if and only if their grid dimensions agree in
  every component, their block dimensions agree in every component, and their
  dynamic shared-memory sizes are equal; that is, if and only if they are the
  same value, whether built by \<^verbatim>\<open>make_launch_config\<close>, with or without its
  defaulted argument, or as an aggregate.
\<close>

theorem C8_launch_configuration_eq:
  "(launch_configuration_eq a b \<longleftrightarrow>
      x (grid_dimensions a) = x (grid_dimensions b)
      \<and> y (grid_dimensions a) = y (grid_dimensions b)
      \<and> z (grid_dimensions a) = z (grid_dimensions b)
      \<and> x (block_dimensions a) = x (block_dimensions b)
      \<and> y (block_dimensions a) = y (block_dimensions b)
      \<and> z (block_dimensions a) = z (block_dimensions b)
      \<and> dynamic_shared_memory_size a = dynamic_shared_memory_size b)
   \<and> (launch_configuration_eq a b \<longleftrightarrow> a = b)
   \<and> launch_configuration_eq (make_launch_config g k s)
        \<lparr>grid_dimensions = g, block_dimensions = k, dynamic_shared_memory_size = s\<rparr>
   \<and> launch_configuration_eq (make_launch_config_default g k) (make_launch_config g k 0)"
proof -
  have f: "launch_configuration_eq a b \<longleftrightarrow>
      x (grid_dimensions a) = x (grid_dimensions b)
      \<and> y (grid_dimensions a) = y (grid_dimensions b)
      \<and> z (grid_dimensions a) = z (grid_dimensions b)
      \<and> x (block_dimensions a) = x (block_dimensions b)
      \<and> y (block_dimensions a) = y (block_dimensions b)
      \<and> z (block_dimensions a) = z (block_dimensions b)
      \<and> dynamic_shared_memory_size a = dynamic_shared_memory_size b"
    by (simp add: launch_configuration_eq_def dimensions_eq_def dim3_eq_def)
  have d: "dim3_eq p q \<longleftrightarrow> p = q" for p q
    by (cases p, cases q) (simp add: dim3_eq_def)
  have e: "launch_configuration_eq a b \<longleftrightarrow> a = b"
    by (cases a, cases b) (simp add: launch_configuration_eq_def dimensions_eq_def d)
  have m: "launch_configuration_eq (make_launch_config g k s)
        \<lparr>grid_dimensions = g, block_dimensions = k, dynamic_shared_memory_size = s\<rparr>"
    by (simp add: launch_configuration_eq_def dimensions_eq_def dim3_eq_def make_launch_config_def)
  have n: "launch_configuration_eq (make_launch_config_default g k) (make_launch_config g k 0)"
    by (simp add: launch_configuration_eq_def dimensions_eq_def dim3_eq_def make_launch_config_default_def)
  from f e m n show ?thesis
    by (intro conjI)
qed

text \<open>
  C9. Every enum alias has the underlying value of its canonical counterpart:
  \<open>none\<close> of \<open>no_preference\<close>, \<open>equal\<close> of \<open>equal_l1_and_shared_memory\<close>,
  \<open>prefer_shared\<close> of \<open>prefer_shared_memory_over_l1\<close>, \<open>prefer_l1\<close> of
  \<open>prefer_l1_over_shared_memory\<close>, whatever the driver's constants are; and
  \<open>sync\<close> of \<open>synchronous\<close>, \<open>async\<close> of \<open>asynchronous\<close>.
\<close>

theorem C9_enum_aliases:
  "cache_preference_value dc none = cache_preference_value dc no_preference
   \<and> cache_preference_value dc equal_alias = cache_preference_value dc equal_l1_and_shared_memory
   \<and> cache_preference_value dc prefer_shared = cache_preference_value dc prefer_shared_memory_over_l1
   \<and> cache_preference_value dc prefer_l1 = cache_preference_value dc prefer_l1_over_shared_memory
   \<and> cache_preference_value dc none = cudaFuncCachePreferNone dc
   \<and> cache_preference_value dc equal_alias = cudaFuncCachePreferEqual dc
   \<and> cache_preference_value dc prefer_shared = cudaFuncCachePreferShared dc
   \<and> cache_preference_value dc prefer_l1 = cudaFuncCachePreferL1 dc
   \<and> synchronicity_value sync = synchronicity_value synchronous
   \<and> synchronicity_value async = synchronicity_value asynchronous
   \<and> synchronicity_value sync = True
   \<and> synchronicity_value async = False"
  by simp

text \<open>
  C10. For every unsigned integer \<open>n\<close>, combining the capability that
  \<^verbatim>\<open>from_combined_number\<close> splits \<open>n\<close> into gives \<open>n\<close> back, with no
  precondition; the minor component that \<^verbatim>\<open>from_combined_number\<close> yields is
  \<open>n mod 10\<close> and so always below 10.
\<close>

theorem C10_combined_roundtrip:
  "as_combined_number (from_combined_number n) = n
   \<and> minor (from_combined_number n) = n mod 10
   \<and> unat (minor (from_combined_number n)) < 10"
proof -
  have "n div 10 * 10 + n mod 10 = n"
    by (rule div_mult_mod_eq)
  moreover have "unat (n mod 10) < 10"
    by (simp add: unat_mod_distrib)
  ultimately show ?thesis
    by (simp add: as_combined_number_def from_combined_number_def)
qed

end
